theory Spec2Isabelle
  imports Complex_Main
begin

section \<open>Heart disease risk form: the data the script works on\<close>

text \<open>
  The embedded program is \<^verbatim>\<open>03_ClassificationAlgorithms/app.py\<close>, a Streamlit script.
  Its widgets deliver eleven values; the handler of the analyse button turns them into a
  one-row table, aligns the table with the list of columns loaded from
  \<^verbatim>\<open>columns.pkl\<close>, hands it to the scaler and the classifier and renders the outcome.

  Python floats occur in two places only: the value of the \<^verbatim>\<open>Oldpeak\<close> slider, which is
  stored and never computed with, and the class probabilities, which are multiplied by
  \<^verbatim>\<open>100\<close> once. Floats are therefore a type parameter \<open>'f\<close>; nothing below depends on
  the laws of its arithmetic.
\<close>

subsection \<open>Widget values (lines 111--132)\<close>

record 'f raw_observation =
  age :: int
  sex :: string
  chest_pain :: string
  exercise_angina :: string
  resting_bp :: int
  cholesterol :: int
  fasting_bs :: int
  max_hr :: int
  resting_ecg :: string
  oldpeak :: 'f
  st_slope :: string

text \<open>The option lists of the five select boxes, in the order the script gives them.\<close>

definition sex_options :: "string list" where
  "sex_options = [''M'', ''F'']"

definition chest_pain_options :: "string list" where
  "chest_pain_options = [''ATA'', ''NAP'', ''TA'', ''ASY'']"

definition exercise_angina_options :: "string list" where
  "exercise_angina_options = [''Y'', ''N'']"

definition resting_ecg_options :: "string list" where
  "resting_ecg_options = [''Normal'', ''ST'', ''LVH'']"

definition st_slope_options :: "string list" where
  "st_slope_options = [''Up'', ''Flat'', ''Down'']"

subsection \<open>Cells, dicts and one-row frames\<close>

text \<open>
  A cell of the table holds a Python int or a float. Exceptions are values; every one that the
  handler can meet is an instance of \<^verbatim>\<open>Exception\<close>: a \<^verbatim>\<open>KeyError\<close> of the column
  selection, an \<^verbatim>\<open>IndexError\<close> of an array subscript, or whatever the scaler and the
  classifier raise, kept with its text.
\<close>

datatype 'f cell = IntCell int | FloatCell 'f

datatype py_exception = KeyError string | IndexError | LibraryError string

type_synonym 'f frame = "(string \<times> 'f cell) list"

text \<open>
  A dict is an association list in insertion order. Storing under a key that is present replaces
  the value and keeps the position; a dict display stores its items from left to right.
\<close>

fun dict_setitem :: "('k \<times> 'v) list \<Rightarrow> 'k \<Rightarrow> 'v \<Rightarrow> ('k \<times> 'v) list" where
  "dict_setitem [] k v = [(k, v)]"
| "dict_setitem ((k', v') # d) k v =
     (if k' = k then (k', v) # d else (k', v') # dict_setitem d k v)"

definition dict_display :: "('k \<times> 'v) list \<Rightarrow> ('k \<times> 'v) list" where
  "dict_display items = foldl (\<lambda>d (k, v). dict_setitem d k v) [] items"

text \<open>\<^verbatim>\<open>pd.DataFrame([d])\<close>: one row, the columns are the keys of \<open>d\<close> in their order.\<close>

definition DataFrame :: "(string \<times> 'f cell) list \<Rightarrow> 'f frame" where
  "DataFrame d = d"

definition columns :: "'f frame \<Rightarrow> string list" where
  "columns df = map fst df"

text \<open>
  \<^verbatim>\<open>df[col] = v\<close> overwrites the column when the label exists and appends a new last column
  otherwise.
\<close>

definition frame_setitem :: "'f frame \<Rightarrow> string \<Rightarrow> 'f cell \<Rightarrow> 'f frame" where
  "frame_setitem df col v =
     (if col \<in> set (columns df)
      then map (\<lambda>(k, x). if k = col then (k, v) else (k, x)) df
      else df @ [(col, v)])"

text \<open>
  \<^verbatim>\<open>df[cols]\<close> with a list of labels: the named columns in the order of the list, a
  \<^verbatim>\<open>KeyError\<close> when a label is not a column. The labels of the frames below are unique, so
  a label selects one column.
\<close>

fun frame_getitem :: "'f frame \<Rightarrow> string list \<Rightarrow> py_exception + 'f frame" where
  "frame_getitem df [] = Inr []"
| "frame_getitem df (c # cs) =
     (case map_of df c of
        None \<Rightarrow> Inl (KeyError c)
      | Some v \<Rightarrow>
          (case frame_getitem df cs of
             Inl e \<Rightarrow> Inl e
           | Inr r \<Rightarrow> Inr ((c, v) # r)))"

section \<open>The feature vector (lines 153--171)\<close>

text \<open>The dict display of lines 153--165: six numeric items, five synthesised one-hot keys.\<close>

definition raw_input :: "'f raw_observation \<Rightarrow> (string \<times> 'f cell) list" where
  "raw_input obs = dict_display
     [(''Age'', IntCell (age obs)),
      (''RestingBP'', IntCell (resting_bp obs)),
      (''Cholesterol'', IntCell (cholesterol obs)),
      (''FastingBS'', IntCell (fasting_bs obs)),
      (''MaxHR'', IntCell (max_hr obs)),
      (''Oldpeak'', FloatCell (oldpeak obs)),
      (''Sex_'' @ sex obs, IntCell 1),
      (''ChestPainType_'' @ chest_pain obs, IntCell 1),
      (''RestingECG_'' @ resting_ecg obs, IntCell 1),
      (''ExerciseAngina_'' @ exercise_angina obs, IntCell 1),
      (''ST_Slope_'' @ st_slope obs, IntCell 1)]"

text \<open>Lines 168--170: every expected column that the frame lacks is added with the value 0.\<close>

fun fill_missing :: "'f frame \<Rightarrow> string list \<Rightarrow> 'f frame" where
  "fill_missing df [] = df"
| "fill_missing df (col # cols) =
     fill_missing (if col \<notin> set (columns df) then frame_setitem df col (IntCell 0) else df) cols"

text \<open>The frame as it stands after line 170, before the columns are selected.\<close>

definition filled_frame :: "'f raw_observation \<Rightarrow> string list \<Rightarrow> 'f frame" where
  "filled_frame obs expected_columns = fill_missing (DataFrame (raw_input obs)) expected_columns"

text \<open>Line 171: the frame is replaced by its selection of the expected columns.\<close>

definition build_feature_vector ::
  "'f raw_observation \<Rightarrow> string list \<Rightarrow> py_exception + 'f frame" where
  "build_feature_vector obs expected_columns =
     frame_getitem (filled_frame obs expected_columns) expected_columns"

text \<open>
  The same lines as a step on the script's variables: the handler reads
  \<^verbatim>\<open>expected_columns\<close>, assigns \<^verbatim>\<open>raw_input\<close> and assigns
  \<^verbatim>\<open>input_df\<close> three times. Whatever the two assigned variables held before is
  overwritten before it is read.
\<close>

record 'f script_vars =
  expected_columns_var :: "string list"
  raw_input_var :: "(string \<times> 'f cell) list"
  input_df_var :: "'f frame"

definition builder_step ::
  "'f raw_observation \<Rightarrow> 'f script_vars \<Rightarrow> py_exception + 'f script_vars" where
  "builder_step obs s0 =
     (let s1 = s0\<lparr>raw_input_var := raw_input obs\<rparr>;
          s2 = s1\<lparr>input_df_var := DataFrame (raw_input_var s1)\<rparr>;
          s3 = s2\<lparr>input_df_var := fill_missing (input_df_var s2) (expected_columns_var s2)\<rparr>
      in case frame_getitem (input_df_var s3) (expected_columns_var s3) of
           Inl e \<Rightarrow> Inl e
         | Inr df \<Rightarrow> Inr (s3\<lparr>input_df_var := df\<rparr>))"

section \<open>Inference and rendering (lines 173--216)\<close>

text \<open>A subscript with a non-negative constant on a numpy array.\<close>

definition np_index :: "'a list \<Rightarrow> nat \<Rightarrow> py_exception + 'a" where
  "np_index xs i = (if i < length xs then Inr (xs ! i) else Inl IndexError)"

text \<open>\<^verbatim>\<open>f(x)[0]\<close> for a library call that may raise.\<close>

definition first_row :: "py_exception + 'a list \<Rightarrow> py_exception + 'a" where
  "first_row r = (case r of Inl e \<Rightarrow> Inl e | Inr xs \<Rightarrow> np_index xs 0)"

text \<open>Line 179. A conditional expression evaluates the chosen branch only.\<close>

definition risk_pct :: "int \<Rightarrow> 'f::{times,numeral} list \<Rightarrow> py_exception + 'f" where
  "risk_pct prediction prediction_proba =
     (if prediction = 1
      then (case np_index prediction_proba 1 of Inl e \<Rightarrow> Inl e | Inr p \<Rightarrow> Inr (p * 100))
      else (case np_index prediction_proba 0 of Inl e \<Rightarrow> Inl e | Inr p \<Rightarrow> Inr (p * 100)))"

text \<open>Lines 202--208: six independent tests, each appending its label.\<close>

definition risk_factors :: "'f raw_observation \<Rightarrow> string list" where
  "risk_factors obs =
     (let rf = [];
          rf = (if age obs > 65 then rf @ [''Age > 65''] else rf);
          rf = (if resting_bp obs > 140 then rf @ [''High BP''] else rf);
          rf = (if cholesterol obs > 240 then rf @ [''High Cholesterol''] else rf);
          rf = (if fasting_bs obs = 1 then rf @ [''High Fasting Sugar''] else rf);
          rf = (if exercise_angina obs = ''Y'' then rf @ [''Exercise Angina''] else rf);
          rf = (if max_hr obs < 100 then rf @ [''Low Max HR''] else rf)
      in rf)"

text \<open>
  What a run of the handler does towards the outside, in order: the three library calls and the
  Streamlit elements. The fixed texts are constructors; the two risk blocks carry the percentage
  they format, a bullet carries its label and the failure message the exception it prints.
\<close>

datatype library_call = Scaler_transform | Model_predict | Model_predict_proba

datatype 'f event =
    Call library_call
  | Markdown_rule
  | Results_header
  | Risk_high 'f
  | Recommended_actions
  | Risk_low 'f
  | Healthy_info
  | Risk_factors_header
  | Risk_factors_detected
  | Bullet string
  | No_red_flags
  | Prediction_failed py_exception

text \<open>
  The three artefacts of \<^verbatim>\<open>load_models\<close>. The classifier and the scaler are not part of
  the repository: they are parameters, each a function that returns or raises. \<open>'s\<close> is the
  type of the scaled input.
\<close>

record ('f, 's) artifacts =
  model_predict :: "'s \<Rightarrow> py_exception + int list"
  model_predict_proba :: "'s \<Rightarrow> py_exception + 'f list list"
  scaler_transform :: "'f frame \<Rightarrow> py_exception + 's"
  expected_columns :: "string list"

text \<open>Lines 181--198.\<close>

definition render_risk :: "int \<Rightarrow> 'f \<Rightarrow> 'f event list" where
  "render_risk prediction pct =
     (if prediction = 1 then [Risk_high pct, Recommended_actions]
      else [Risk_low pct, Healthy_info])"

text \<open>Lines 209--214.\<close>

definition render_risk_factors :: "string list \<Rightarrow> 'f event list" where
  "render_risk_factors rfs =
     (if rfs \<noteq> [] then Risk_factors_detected # map Bullet rfs else [No_red_flags])"

text \<open>
  Lines 173--214, from the aligned frame on. The result is what was emitted and, when the body
  was left by an exception, that exception.
\<close>

definition infer ::
  "('f::{times,numeral}, 's) artifacts \<Rightarrow> 'f raw_observation \<Rightarrow> 'f frame \<Rightarrow>
     'f event list \<times> py_exception option" where
  "infer a obs input_df =
     (case scaler_transform a input_df of
        Inl e \<Rightarrow> ([Call Scaler_transform], Some e)
      | Inr scaled_input \<Rightarrow>
     (case first_row (model_predict a scaled_input) of
        Inl e \<Rightarrow> ([Call Scaler_transform, Call Model_predict], Some e)
      | Inr prediction \<Rightarrow>
     (case first_row (model_predict_proba a scaled_input) of
        Inl e \<Rightarrow> ([Call Scaler_transform, Call Model_predict, Call Model_predict_proba], Some e)
      | Inr prediction_proba \<Rightarrow>
     (case risk_pct prediction prediction_proba of
        Inl e \<Rightarrow>
          ([Call Scaler_transform, Call Model_predict, Call Model_predict_proba,
            Markdown_rule, Results_header], Some e)
      | Inr pct \<Rightarrow>
          ([Call Scaler_transform, Call Model_predict, Call Model_predict_proba,
            Markdown_rule, Results_header]
             @ render_risk prediction pct
             @ [Risk_factors_header]
             @ render_risk_factors (risk_factors obs), None)))))"

text \<open>The body of the \<^verbatim>\<open>try\<close>, lines 153--214.\<close>

definition try_body ::
  "('f::{times,numeral}, 's) artifacts \<Rightarrow> 'f raw_observation \<Rightarrow>
     'f event list \<times> py_exception option" where
  "try_body a obs =
     (case build_feature_vector obs (expected_columns a) of
        Inl e \<Rightarrow> ([], Some e)
      | Inr input_df \<Rightarrow> infer a obs input_df)"

text \<open>Lines 151--216: the \<^verbatim>\<open>except\<close> clause prints the exception and ends the handler.\<close>

definition on_analyze ::
  "('f::{times,numeral}, 's) artifacts \<Rightarrow> 'f raw_observation \<Rightarrow> 'f event list" where
  "on_analyze a obs =
     (case try_body a obs of
        (emitted, None) \<Rightarrow> emitted
      | (emitted, Some e) \<Rightarrow> emitted @ [Prediction_failed e])"

text \<open>
  What survives a submission: the loaded artefacts and the values of the widgets. The handler
  assigns to neither, so a press of the button returns the state it found, with the events of
  the handler.
\<close>

record ('f, 's) app_state =
  loaded :: "('f, 's) artifacts"
  widgets :: "'f raw_observation"

definition submit ::
  "('f::{times,numeral}, 's) app_state \<Rightarrow> ('f, 's) app_state \<times> 'f event list" where
  "submit st = (st, on_analyze (loaded st) (widgets st))"

section \<open>Vocabulary of the properties\<close>

text \<open>The six numeric fields with the raw values of their widgets (lines 154--159).\<close>

definition numeric_fields :: "'f raw_observation \<Rightarrow> (string \<times> 'f cell) list" where
  "numeric_fields obs =
     [(''Age'', IntCell (age obs)),
      (''RestingBP'', IntCell (resting_bp obs)),
      (''Cholesterol'', IntCell (cholesterol obs)),
      (''FastingBS'', IntCell (fasting_bs obs)),
      (''MaxHR'', IntCell (max_hr obs)),
      (''Oldpeak'', FloatCell (oldpeak obs))]"

text \<open>
  The five categorical fields (lines 160--164): the prefix of the synthesised key, the domain of
  the select box and the selected value.
\<close>

definition categorical_fields ::
  "'f raw_observation \<Rightarrow> (string \<times> string list \<times> string) list" where
  "categorical_fields obs =
     [(''Sex_'', sex_options, sex obs),
      (''ChestPainType_'', chest_pain_options, chest_pain obs),
      (''RestingECG_'', resting_ecg_options, resting_ecg obs),
      (''ExerciseAngina_'', exercise_angina_options, exercise_angina obs),
      (''ST_Slope_'', st_slope_options, st_slope obs)]"

definition synthesized_keys :: "'f raw_observation \<Rightarrow> string list" where
  "synthesized_keys obs = map (\<lambda>(prefix, opts, v). prefix @ v) (categorical_fields obs)"

text \<open>The one-hot columns of a field's domain, and those of them that a frame sets to 1.\<close>

definition domain_columns :: "string \<Rightarrow> string list \<Rightarrow> string list" where
  "domain_columns prefix opts = map (\<lambda>v. prefix @ v) opts"

definition hot_columns :: "string list \<Rightarrow> 'f frame \<Rightarrow> string list" where
  "hot_columns cols df = filter (\<lambda>c. map_of df c = Some (IntCell 1)) cols"

text \<open>The value that the aligned frame holds under a label: the item of the dict, else 0.\<close>

definition cell_or_zero :: "'f raw_observation \<Rightarrow> string \<Rightarrow> 'f cell" where
  "cell_or_zero obs c = (case map_of (raw_input obs) c of Some v \<Rightarrow> v | None \<Rightarrow> IntCell 0)"

text \<open>
  The example of the specification, which is also the state of the untouched form except for
  the angina box, and two variations of it: the patient of the risk-factor check, and a patient
  on the four thresholds.
\<close>

definition spec_example :: "real raw_observation" where
  "spec_example =
     \<lparr>age = 40, sex = ''M'', chest_pain = ''ATA'', exercise_angina = ''N'', resting_bp = 120,
      cholesterol = 200, fasting_bs = 0, max_hr = 150, resting_ecg = ''Normal'', oldpeak = 1,
      st_slope = ''Up''\<rparr>"

definition elderly_example :: "real raw_observation" where
  "elderly_example = spec_example\<lparr>age := 70, resting_bp := 150\<rparr>"

definition boundary_example :: "real raw_observation" where
  "boundary_example =
     spec_example\<lparr>age := 65, resting_bp := 140, cholesterol := 240, max_hr := 100\<rparr>"

text \<open>
  Stand-ins for the loaded artefacts: a scaler and a classifier that answer every input with
  the given results, and two expected columns.
\<close>

definition example_artifacts ::
  "py_exception + unit \<Rightarrow> py_exception + int list \<Rightarrow> py_exception + real list list \<Rightarrow>
     (real, unit) artifacts" where
  "example_artifacts transformed predicted probabilities =
     \<lparr>model_predict = (\<lambda>_. predicted),
      model_predict_proba = (\<lambda>_. probabilities),
      scaler_transform = (\<lambda>_. transformed),
      expected_columns = [''Age'', ''Sex_M'']\<rparr>"

section \<open>What the aligned frame holds\<close>

text \<open>The keys of the dict display never collide, so the dict has its eleven items in order.\<close>

lemma raw_input_items:
  "raw_input obs =
     [(''Age'', IntCell (age obs)),
      (''RestingBP'', IntCell (resting_bp obs)),
      (''Cholesterol'', IntCell (cholesterol obs)),
      (''FastingBS'', IntCell (fasting_bs obs)),
      (''MaxHR'', IntCell (max_hr obs)),
      (''Oldpeak'', FloatCell (oldpeak obs)),
      (''Sex_'' @ sex obs, IntCell 1),
      (''ChestPainType_'' @ chest_pain obs, IntCell 1),
      (''RestingECG_'' @ resting_ecg obs, IntCell 1),
      (''ExerciseAngina_'' @ exercise_angina obs, IntCell 1),
      (''ST_Slope_'' @ st_slope obs, IntCell 1)]"
  by (simp add: raw_input_def dict_display_def)

lemma in_columns_iff: "c \<in> set (columns df) \<longleftrightarrow> map_of df c \<noteq> None"
  by (simp add: columns_def map_of_eq_None_iff)

lemma map_of_frame_setitem_new:
  "c \<notin> set (columns df) \<Longrightarrow>
     map_of (frame_setitem df c v) k = (if k = c then Some v else map_of df k)"
  by (auto simp: frame_setitem_def in_columns_iff map_add_def split: option.splits)

text \<open>The loop keeps every column it finds and gives 0 to every expected label it misses.\<close>

lemma map_of_fill_missing:
  "map_of (fill_missing df cols) c =
     (case map_of df c of
        Some v \<Rightarrow> Some v
      | None \<Rightarrow> if c \<in> set cols then Some (IntCell 0) else None)"
proof (induction cols arbitrary: df)
  case Nil
  then show ?case by (simp split: option.splits)
next
  case (Cons col cols)
  show ?case
  proof (cases "col \<in> set (columns df)")
    case True
    then show ?thesis
      using Cons.IH [of df] by (auto simp: in_columns_iff split: option.splits)
  next
    case False
    then show ?thesis
      using Cons.IH [of "frame_setitem df col (IntCell 0)"]
      by (auto simp: map_of_frame_setitem_new in_columns_iff split: option.splits)
  qed
qed

lemma frame_getitem_present:
  "(\<And>c. c \<in> set cols \<Longrightarrow> map_of df c = Some (f c)) \<Longrightarrow>
     frame_getitem df cols = Inr (map (\<lambda>c. (c, f c)) cols)"
  by (induction cols) simp_all

lemma map_of_filled_frame:
  "map_of (filled_frame obs cols) c =
     (case map_of (raw_input obs) c of
        Some v \<Rightarrow> Some v
      | None \<Rightarrow> if c \<in> set cols then Some (IntCell 0) else None)"
  by (simp add: filled_frame_def DataFrame_def map_of_fill_missing)

lemma map_of_filled_frame_expected:
  "c \<in> set cols \<Longrightarrow> map_of (filled_frame obs cols) c = Some (cell_or_zero obs c)"
  by (simp add: map_of_filled_frame cell_or_zero_def split: option.splits)

text \<open>The selection never raises: the loop has made every expected label a column.\<close>

lemma build_feature_vector_eq:
  "build_feature_vector obs cols = Inr (map (\<lambda>c. (c, cell_or_zero obs c)) cols)"
  unfolding build_feature_vector_def
  by (rule frame_getitem_present) (rule map_of_filled_frame_expected)

lemma map_of_aligned:
  "map_of (map (\<lambda>c. (c, f c)) cols) c = (if c \<in> set cols then Some (f c) else None)"
  by (induction cols) auto

lemma columns_aligned: "columns (map (\<lambda>c. (c, f c)) cols) = cols"
  by (simp add: columns_def comp_def)

lemma numeric_field_iff:
  "(n, x) \<in> set (numeric_fields obs) \<longleftrightarrow>
     n = ''Age'' \<and> x = IntCell (age obs) \<or>
     n = ''RestingBP'' \<and> x = IntCell (resting_bp obs) \<or>
     n = ''Cholesterol'' \<and> x = IntCell (cholesterol obs) \<or>
     n = ''FastingBS'' \<and> x = IntCell (fasting_bs obs) \<or>
     n = ''MaxHR'' \<and> x = IntCell (max_hr obs) \<or>
     n = ''Oldpeak'' \<and> x = FloatCell (oldpeak obs)"
  by (simp add: numeric_fields_def)

lemma numeric_field_in_raw_input:
  "(n, x) \<in> set (numeric_fields obs) \<Longrightarrow> map_of (raw_input obs) n = Some x"
  unfolding numeric_field_iff
  by (elim disjE conjE) (simp_all add: raw_input_items)

lemma categorical_field_iff:
  "(p, opts, v) \<in> set (categorical_fields obs) \<longleftrightarrow>
     p = ''Sex_'' \<and> opts = sex_options \<and> v = sex obs \<or>
     p = ''ChestPainType_'' \<and> opts = chest_pain_options \<and> v = chest_pain obs \<or>
     p = ''RestingECG_'' \<and> opts = resting_ecg_options \<and> v = resting_ecg obs \<or>
     p = ''ExerciseAngina_'' \<and> opts = exercise_angina_options \<and> v = exercise_angina obs \<or>
     p = ''ST_Slope_'' \<and> opts = st_slope_options \<and> v = st_slope obs"
  by (simp add: categorical_fields_def)

text \<open>
  Of all labels with a field's prefix the dict holds the synthesised one only: the prefixes
  differ from each other and from the six numeric names.
\<close>

lemma categorical_key_in_raw_input:
  "(p, opts, v) \<in> set (categorical_fields obs) \<Longrightarrow>
     map_of (raw_input obs) (p @ w) = (if w = v then Some (IntCell 1) else None)"
  unfolding categorical_field_iff
  by (elim disjE conjE) (simp_all add: raw_input_items)

lemma categorical_options_distinct:
  "(p, opts, v) \<in> set (categorical_fields obs) \<Longrightarrow> distinct opts"
  unfolding categorical_field_iff
  by (elim disjE conjE)
    (simp_all add: sex_options_def chest_pain_options_def resting_ecg_options_def
      exercise_angina_options_def st_slope_options_def)

lemma filter_selected:
  "distinct xs \<Longrightarrow> filter (\<lambda>w. w = v) xs = (if v \<in> set xs then [v] else [])"
  by (induction xs) auto

lemma synthesized_key_iff:
  "k \<in> set (synthesized_keys obs) \<longleftrightarrow>
     k = ''Sex_'' @ sex obs \<or> k = ''ChestPainType_'' @ chest_pain obs \<or>
     k = ''RestingECG_'' @ resting_ecg obs \<or> k = ''ExerciseAngina_'' @ exercise_angina obs \<or>
     k = ''ST_Slope_'' @ st_slope obs"
  by (simp add: synthesized_keys_def categorical_fields_def)

lemma synthesized_key_in_raw_input:
  "k \<in> set (synthesized_keys obs) \<Longrightarrow> map_of (raw_input obs) k = Some (IntCell 1)"
  unfolding synthesized_key_iff
  by (elim disjE) (simp_all add: raw_input_items)

text \<open>The step on the variables computes the same frame as the function.\<close>

lemma builder_step_eq:
  "builder_step obs s =
     Inr (s\<lparr>raw_input_var := raw_input obs,
            input_df_var := map (\<lambda>c. (c, cell_or_zero obs c)) (expected_columns_var s)\<rparr>)"
proof -
  have "frame_getitem (fill_missing (DataFrame (raw_input obs)) (expected_columns_var s))
          (expected_columns_var s)
        = Inr (map (\<lambda>c. (c, cell_or_zero obs c)) (expected_columns_var s))"
    using build_feature_vector_eq [of obs "expected_columns_var s"]
    by (simp add: build_feature_vector_def filled_frame_def)
  then show ?thesis
    by (simp add: builder_step_def)
qed

lemma spec_example_vector:
  "build_feature_vector spec_example [''Age'', ''Sex_M'']
     = Inr [(''Age'', IntCell 40), (''Sex_M'', IntCell 1)]"
  by (simp add: build_feature_vector_eq cell_or_zero_def raw_input_items spec_example_def)

lemma female_example_vector:
  "build_feature_vector (spec_example\<lparr>sex := ''F''\<rparr>) [''Age'', ''Sex_M'']
     = Inr [(''Age'', IntCell 40), (''Sex_M'', IntCell 0)]"
  by (simp add: build_feature_vector_eq cell_or_zero_def raw_input_items spec_example_def)

section \<open>Properties of the feature vector\<close>

text \<open>
  C1. For every observation and every list of expected columns the builder returns a frame; it
  has as many entries as the list, and its column labels are the list, in its order.
\<close>

theorem feature_vector_follows_schema:
  "\<exists>fv. build_feature_vector obs cols = Inr fv \<and>
        length fv = length cols \<and> columns fv = cols"
  by (simp add: build_feature_vector_eq columns_aligned)

text \<open>
  C2, as the code has it. Let a categorical field have its selection in the domain of its
  select box. Before the columns are selected (after line 170) exactly one one-hot column of
  the field's domain is 1, the synthesised one. In the feature vector the one-hot columns of
  the field that are 1 are the synthesised one when the expected columns name it, and none
  otherwise; every other one-hot column of the field that the expected columns name is 0.
\<close>

theorem onehot_columns_of_field:
  assumes field: "(p, opts, v) \<in> set (categorical_fields obs)"
      and sel: "v \<in> set opts"
  shows "hot_columns (domain_columns p opts) (filled_frame obs cols) = [p @ v] \<and>
         (\<exists>fv. build_feature_vector obs cols = Inr fv \<and>
               hot_columns (domain_columns p opts) fv
                 = (if p @ v \<in> set cols then [p @ v] else []) \<and>
               (\<forall>c\<in>set (domain_columns p opts).
                  c \<noteq> p @ v \<longrightarrow> c \<in> set cols \<longrightarrow> map_of fv c = Some (IntCell 0)))"
proof -
  note raw = categorical_key_in_raw_input [OF field]
  have d: "distinct opts"
    using field by (rule categorical_options_distinct)
  have "filter (\<lambda>w. map_of (filled_frame obs cols) (p @ w) = Some (IntCell 1)) opts
          = filter (\<lambda>w. w = v) opts"
    by (rule filter_cong) (simp_all add: map_of_filled_frame raw)
  then have before: "hot_columns (domain_columns p opts) (filled_frame obs cols) = [p @ v]"
    using d sel
    by (simp add: hot_columns_def domain_columns_def filter_map comp_def filter_selected)
  let ?fv = "map (\<lambda>c. (c, cell_or_zero obs c)) cols"
  have cz: "cell_or_zero obs (p @ w) = (if w = v then IntCell 1 else IntCell 0)" for w
    by (simp add: cell_or_zero_def raw)
  have "filter (\<lambda>w. map_of ?fv (p @ w) = Some (IntCell 1)) opts
          = (if p @ v \<in> set cols then filter (\<lambda>w. w = v) opts else [])"
    by (auto simp: map_of_aligned cz intro!: filter_cong filter_False)
  then have after:
    "hot_columns (domain_columns p opts) ?fv = (if p @ v \<in> set cols then [p @ v] else [])"
    using d sel
    by (simp add: hot_columns_def domain_columns_def filter_map comp_def filter_selected)
  have zero: "\<forall>c\<in>set (domain_columns p opts).
                  c \<noteq> p @ v \<longrightarrow> c \<in> set cols \<longrightarrow> map_of ?fv c = Some (IntCell 0)"
    by (auto simp: domain_columns_def map_of_aligned cz)
  show ?thesis
    using before after zero by (simp add: build_feature_vector_eq)
qed

text \<open>
  The theorem at the example of the specification (sex \<^verbatim>\<open>M\<close>) and expected columns that
  name \<^verbatim>\<open>Sex_F\<close> only: one column is 1 before the selection, none after it.
\<close>

theorem onehot_columns_of_field_witness:
  "(''Sex_'', sex_options, ''M'') \<in> set (categorical_fields spec_example) \<and>
   ''M'' \<in> set sex_options \<and>
   hot_columns (domain_columns ''Sex_'' sex_options)
     (filled_frame spec_example [''Age'', ''Sex_F'']) = [''Sex_M''] \<and>
   build_feature_vector spec_example [''Age'', ''Sex_F'']
     = Inr [(''Age'', IntCell 40), (''Sex_F'', IntCell 0)] \<and>
   hot_columns (domain_columns ''Sex_'' sex_options)
     [(''Age'', IntCell 40), (''Sex_F'', IntCell 0 :: real cell)] = []"
proof -
  have f: "(''Sex_'', sex_options, ''M'') \<in> set (categorical_fields spec_example)"
    by (simp add: categorical_fields_def spec_example_def)
  have m: "''M'' \<in> set sex_options"
    by (simp add: sex_options_def)
  have b: "build_feature_vector spec_example [''Age'', ''Sex_F'']
             = Inr [(''Age'', IntCell 40), (''Sex_F'', IntCell 0)]"
    by (simp add: build_feature_vector_eq cell_or_zero_def raw_input_items spec_example_def)
  show ?thesis
    using onehot_columns_of_field [OF f m, of "[''Age'', ''Sex_F'']"] f m b by simp
qed

text \<open>
  C2 as it is written fails: with sex \<^verbatim>\<open>F\<close> and the expected columns
  \<^verbatim>\<open>['Age', 'Sex_M']\<close> the feature vector is \<^verbatim>\<open>Age = 40, Sex_M = 0\<close>, and no one-hot
  column of the field is 1 in it. The definitions are unfolded down to the source's steps.
\<close>

theorem onehot_selected_key_dropped:
  "build_feature_vector (spec_example\<lparr>sex := ''F''\<rparr>) [''Age'', ''Sex_M'']
     = Inr [(''Age'', IntCell 40), (''Sex_M'', IntCell 0)] \<and>
   hot_columns (domain_columns ''Sex_'' sex_options)
     [(''Age'', IntCell 40), (''Sex_M'', IntCell 0 :: real cell)] = []"
  by (simp add: build_feature_vector_def filled_frame_def DataFrame_def raw_input_def
      dict_display_def columns_def frame_setitem_def spec_example_def hot_columns_def
      domain_columns_def sex_options_def)

text \<open>
  C3. When the key synthesised for a categorical selection is not among the expected columns,
  the dict and the filled frame still hold it with the value 1, the selection of the expected
  columns raises nothing and returns a frame without it whose labels are all expected
  columns, and the body of the \<^verbatim>\<open>try\<close> goes on to the inference with that frame.
\<close>

theorem unseen_category_dropped:
  assumes key: "k \<in> set (synthesized_keys obs)"
      and unseen: "k \<notin> set (expected_columns a)"
  shows "map_of (raw_input obs) k = Some (IntCell 1) \<and>
         map_of (filled_frame obs (expected_columns a)) k = Some (IntCell 1) \<and>
         (\<exists>fv. build_feature_vector obs (expected_columns a) = Inr fv \<and>
               k \<notin> set (columns fv) \<and>
               set (columns fv) \<subseteq> set (expected_columns a) \<and>
               try_body a obs = infer a obs fv)"
proof -
  have raw: "map_of (raw_input obs) k = Some (IntCell 1)"
    using key by (rule synthesized_key_in_raw_input)
  then have filled: "map_of (filled_frame obs (expected_columns a)) k = Some (IntCell 1)"
    by (simp add: map_of_filled_frame)
  show ?thesis
    using raw filled unseen
    by (simp add: build_feature_vector_eq try_body_def columns_aligned)
qed

theorem unseen_category_dropped_witness:
  "''Sex_F'' \<in> set (synthesized_keys (spec_example\<lparr>sex := ''F''\<rparr>)) \<and>
   ''Sex_F'' \<notin> set [''Age'', ''Sex_M''] \<and>
   map_of (raw_input (spec_example\<lparr>sex := ''F''\<rparr>)) ''Sex_F'' = Some (IntCell 1) \<and>
   build_feature_vector (spec_example\<lparr>sex := ''F''\<rparr>) [''Age'', ''Sex_M'']
     = Inr [(''Age'', IntCell 40), (''Sex_M'', IntCell 0)]"
proof -
  let ?a = "\<lparr>model_predict = (\<lambda>_::unit. Inr [0]),
             model_predict_proba = (\<lambda>_. Inr [[1, 0::real]]),
             scaler_transform = (\<lambda>_. Inr ()), expected_columns = [''Age'', ''Sex_M'']\<rparr>"
  have k: "''Sex_F'' \<in> set (synthesized_keys (spec_example\<lparr>sex := ''F''\<rparr>))"
    by (simp add: synthesized_keys_def categorical_fields_def spec_example_def)
  have u: "''Sex_F'' \<notin> set (expected_columns ?a)"
    by simp
  show ?thesis
    using unseen_category_dropped [OF k u] k female_example_vector by simp
qed

text \<open>
  C5, as the code has it. Each of the six numeric fields is in the dict and in the filled frame
  (after line 170) with the raw value of its widget: nothing is computed from it before the
  scaler. The feature vector has the field exactly when the expected columns name it, and then
  every entry under the field's name holds that raw value.
\<close>

theorem numeric_fields_pass_through:
  assumes "(n, x) \<in> set (numeric_fields obs)"
  shows "map_of (raw_input obs) n = Some x \<and>
         map_of (filled_frame obs cols) n = Some x \<and>
         (\<exists>fv. build_feature_vector obs cols = Inr fv \<and>
               (\<forall>i<length cols. cols ! i = n \<longrightarrow> fv ! i = (n, x)) \<and>
               map_of fv n = (if n \<in> set cols then Some x else None))"
proof -
  have raw: "map_of (raw_input obs) n = Some x"
    using assms by (rule numeric_field_in_raw_input)
  then have cell: "cell_or_zero obs n = x"
    by (simp add: cell_or_zero_def)
  have filled: "map_of (filled_frame obs cols) n = Some x"
    using raw by (simp add: map_of_filled_frame)
  show ?thesis
    using raw filled cell by (simp add: build_feature_vector_eq map_of_aligned)
qed

text \<open>
  The theorem at the example of the specification: \<^verbatim>\<open>Oldpeak\<close> with expected columns that
  name it, and \<^verbatim>\<open>RestingBP\<close> with expected columns that do not.
\<close>

theorem numeric_fields_pass_through_witness:
  "(''Oldpeak'', FloatCell 1) \<in> set (numeric_fields spec_example) \<and>
   map_of (raw_input spec_example) ''Oldpeak'' = Some (FloatCell 1) \<and>
   build_feature_vector spec_example [''Sex_M'', ''Oldpeak'']
     = Inr [(''Sex_M'', IntCell 1), (''Oldpeak'', FloatCell 1)] \<and>
   (''RestingBP'', IntCell 120) \<in> set (numeric_fields spec_example) \<and>
   map_of (filled_frame spec_example [''Age'', ''Sex_M'']) ''RestingBP'' = Some (IntCell 120) \<and>
   build_feature_vector spec_example [''Age'', ''Sex_M'']
     = Inr [(''Age'', IntCell 40), (''Sex_M'', IntCell 1)]"
proof -
  have h: "(''Oldpeak'', FloatCell 1) \<in> set (numeric_fields spec_example)"
    by (simp add: numeric_fields_def spec_example_def)
  have g: "(''RestingBP'', IntCell 120) \<in> set (numeric_fields spec_example)"
    by (simp add: numeric_fields_def spec_example_def)
  have b: "build_feature_vector spec_example [''Sex_M'', ''Oldpeak'']
     = Inr [(''Sex_M'', IntCell 1), (''Oldpeak'', FloatCell 1)]"
    by (simp add: build_feature_vector_eq cell_or_zero_def raw_input_items spec_example_def)
  show ?thesis
    using numeric_fields_pass_through [OF h, of "[''Sex_M'', ''Oldpeak'']"]
      numeric_fields_pass_through [OF g, of "[''Age'', ''Sex_M'']"]
      h g b spec_example_vector
    by simp
qed

text \<open>
  C5 as it is written fails: with the expected columns \<^verbatim>\<open>['Age', 'Sex_M']\<close> the feature
  vector of the specification's example is \<^verbatim>\<open>Age = 40, Sex_M = 1\<close>, and the numeric field
  \<^verbatim>\<open>RestingBP\<close>, raw value 120, does not appear in it. The definitions are unfolded down to
  the source's steps.
\<close>

theorem numeric_field_dropped:
  "(''RestingBP'', IntCell 120) \<in> set (numeric_fields spec_example) \<and>
   build_feature_vector spec_example [''Age'', ''Sex_M'']
     = Inr [(''Age'', IntCell 40), (''Sex_M'', IntCell 1)] \<and>
   ''RestingBP'' \<notin> set (columns [(''Age'', IntCell 40), (''Sex_M'', IntCell 1 :: real cell)]) \<and>
   map_of [(''Age'', IntCell 40), (''Sex_M'', IntCell 1 :: real cell)] ''RestingBP'' = None"
  by (simp add: build_feature_vector_def filled_frame_def DataFrame_def raw_input_def
      dict_display_def columns_def frame_setitem_def spec_example_def numeric_fields_def)

text \<open>
  C8. The builder is deterministic. Run on the same observation from two states of the script's
  variables that agree on the expected columns, whatever the other variables hold, it returns
  in both and leaves the same feature vector; run again in the state it has left, it returns
  that state; and the vector is the one of the function.
\<close>

theorem builder_deterministic:
  assumes "expected_columns_var t = expected_columns_var s"
  shows "\<exists>s' t'. builder_step obs s = Inr s' \<and> builder_step obs t = Inr t' \<and>
           input_df_var t' = input_df_var s' \<and>
           builder_step obs s' = Inr s' \<and>
           build_feature_vector obs (expected_columns_var s) = Inr (input_df_var s')"
  using assms by (simp add: builder_step_eq build_feature_vector_eq)

theorem builder_deterministic_witness:
  "expected_columns_var \<lparr>expected_columns_var = [''Age'', ''Sex_M''], raw_input_var = [],
       input_df_var = [(''Stale'', IntCell 7 :: real cell)]\<rparr>
     = expected_columns_var \<lparr>expected_columns_var = [''Age'', ''Sex_M''], raw_input_var = [],
       input_df_var = ([] :: real frame)\<rparr> \<and>
   map_sum id input_df_var (builder_step spec_example
      \<lparr>expected_columns_var = [''Age'', ''Sex_M''], raw_input_var = [],
       input_df_var = [(''Stale'', IntCell 7)]\<rparr>)
     = Inr [(''Age'', IntCell 40), (''Sex_M'', IntCell 1)] \<and>
   map_sum id input_df_var (builder_step spec_example
      \<lparr>expected_columns_var = [''Age'', ''Sex_M''], raw_input_var = [], input_df_var = []\<rparr>)
     = Inr [(''Age'', IntCell 40), (''Sex_M'', IntCell 1)]"
proof -
  let ?s = "\<lparr>expected_columns_var = [''Age'', ''Sex_M''], raw_input_var = [],
       input_df_var = ([] :: real frame)\<rparr>"
  let ?t = "\<lparr>expected_columns_var = [''Age'', ''Sex_M''], raw_input_var = [],
       input_df_var = [(''Stale'', IntCell 7 :: real cell)]\<rparr>"
  have h: "expected_columns_var ?t = expected_columns_var ?s"
    by simp
  show ?thesis
    using builder_deterministic [OF h, of spec_example] spec_example_vector by auto
qed

section \<open>Properties of the inference and of the rendering\<close>

lemma risk_factors_eq:
  "risk_factors obs =
     (if age obs > 65 then [''Age > 65''] else []) @
     (if resting_bp obs > 140 then [''High BP''] else []) @
     (if cholesterol obs > 240 then [''High Cholesterol''] else []) @
     (if fasting_bs obs = 1 then [''High Fasting Sugar''] else []) @
     (if exercise_angina obs = ''Y'' then [''Exercise Angina''] else []) @
     (if max_hr obs < 100 then [''Low Max HR''] else [])"
  by (simp add: risk_factors_def Let_def)

lemma on_analyze_eq:
  "build_feature_vector obs (expected_columns a) = Inr input_df \<Longrightarrow>
     on_analyze a obs =
       (case infer a obs input_df of
          (emitted, None) \<Rightarrow> emitted
        | (emitted, Some e) \<Rightarrow> emitted @ [Prediction_failed e])"
  by (simp add: on_analyze_def try_body_def)

lemma render_risk_factors_no_block:
  "Risk_high p \<notin> set (render_risk_factors rfs)" "Risk_low p \<notin> set (render_risk_factors rfs)"
  by (auto simp: render_risk_factors_def)

lemma example_vector_of_artifacts:
  "build_feature_vector spec_example (expected_columns (example_artifacts t p q))
     = Inr [(''Age'', IntCell 40), (''Sex_M'', IntCell 1)]"
  using spec_example_vector by (simp add: example_artifacts_def)

text \<open>
  C4. With the two class probabilities of the contract, the percentage is the probability of
  the predicted class times 100: \<^verbatim>\<open>prediction_proba[1] * 100\<close> for the label 1,
  \<^verbatim>\<open>prediction_proba[0] * 100\<close> for the label 0. The product is the one of the float type;
  the format \<^verbatim>\<open>.1f\<close> of the display is applied to this value.
\<close>

theorem risk_pct_of_predicted_class:
  assumes "length prediction_proba = 2"
  shows "risk_pct 1 prediction_proba = Inr (prediction_proba ! 1 * 100) \<and>
         risk_pct 0 prediction_proba = Inr (prediction_proba ! 0 * 100) \<and>
         (prediction = 0 \<or> prediction = 1 \<longrightarrow>
            risk_pct prediction prediction_proba
              = Inr (prediction_proba ! nat prediction * 100))"
  using assms by (auto simp: risk_pct_def np_index_def)

theorem risk_pct_of_predicted_class_witness:
  "length [0.25, 0.75 :: real] = 2 \<and>
   risk_pct 1 [0.25, 0.75 :: real] = Inr 75 \<and>
   risk_pct 0 [0.25, 0.75 :: real] = Inr 25"
proof -
  have h: "length [0.25, 0.75 :: real] = 2"
    by simp
  show ?thesis
    using risk_pct_of_predicted_class [OF h] by simp
qed

text \<open>
  C6. For age 70 and resting blood pressure 150, with cholesterol at most 240, fasting sugar
  flag 0, no exercise angina and a maximal heart rate of at least 100, the list of risk factors
  is \<^verbatim>\<open>["Age > 65", "High BP"]\<close>. In general each of the six labels is in the list if and
  only if its test holds.
\<close>

theorem risk_factors_by_threshold:
  "(age obs = 70 \<and> resting_bp obs = 150 \<and> cholesterol obs \<le> 240 \<and> fasting_bs obs = 0 \<and>
    exercise_angina obs = ''N'' \<and> max_hr obs \<ge> 100
      \<longrightarrow> risk_factors obs = [''Age > 65'', ''High BP'']) \<and>
   (''Age > 65'' \<in> set (risk_factors obs) \<longleftrightarrow> age obs > 65) \<and>
   (''High BP'' \<in> set (risk_factors obs) \<longleftrightarrow> resting_bp obs > 140) \<and>
   (''High Cholesterol'' \<in> set (risk_factors obs) \<longleftrightarrow> cholesterol obs > 240) \<and>
   (''High Fasting Sugar'' \<in> set (risk_factors obs) \<longleftrightarrow> fasting_bs obs = 1) \<and>
   (''Exercise Angina'' \<in> set (risk_factors obs) \<longleftrightarrow> exercise_angina obs = ''Y'') \<and>
   (''Low Max HR'' \<in> set (risk_factors obs) \<longleftrightarrow> max_hr obs < 100)"
  by (simp add: risk_factors_eq)

theorem risk_factors_by_threshold_witness:
  "age elderly_example = 70 \<and> resting_bp elderly_example = 150 \<and>
   cholesterol elderly_example \<le> 240 \<and> fasting_bs elderly_example = 0 \<and>
   exercise_angina elderly_example = ''N'' \<and> max_hr elderly_example \<ge> 100 \<and>
   risk_factors elderly_example = [''Age > 65'', ''High BP'']"
  using risk_factors_by_threshold [of elderly_example]
  by (simp add: elderly_example_def spec_example_def)

text \<open>
  C9. The four threshold tests are strict: a value on the boundary (age 65, resting blood
  pressure 140, cholesterol 240, maximal heart rate 100) does not add its label, the next value
  beyond it does. The other two tests are equalities.
\<close>

theorem risk_thresholds_strict:
  "(age obs = 65 \<longrightarrow> ''Age > 65'' \<notin> set (risk_factors obs)) \<and>
   (resting_bp obs = 140 \<longrightarrow> ''High BP'' \<notin> set (risk_factors obs)) \<and>
   (cholesterol obs = 240 \<longrightarrow> ''High Cholesterol'' \<notin> set (risk_factors obs)) \<and>
   (max_hr obs = 100 \<longrightarrow> ''Low Max HR'' \<notin> set (risk_factors obs)) \<and>
   (age obs = 66 \<longrightarrow> ''Age > 65'' \<in> set (risk_factors obs)) \<and>
   (resting_bp obs = 141 \<longrightarrow> ''High BP'' \<in> set (risk_factors obs)) \<and>
   (cholesterol obs = 241 \<longrightarrow> ''High Cholesterol'' \<in> set (risk_factors obs)) \<and>
   (max_hr obs = 99 \<longrightarrow> ''Low Max HR'' \<in> set (risk_factors obs))"
  by (simp add: risk_factors_eq)

theorem risk_thresholds_strict_witness:
  "age boundary_example = 65 \<and> resting_bp boundary_example = 140 \<and>
   cholesterol boundary_example = 240 \<and> max_hr boundary_example = 100 \<and>
   risk_factors boundary_example = [] \<and>
   risk_factors (boundary_example\<lparr>age := 66, resting_bp := 141, cholesterol := 241, max_hr := 99\<rparr>)
     = [''Age > 65'', ''High BP'', ''High Cholesterol'', ''Low Max HR'']"
  using risk_thresholds_strict [of boundary_example]
    risk_thresholds_strict
      [of "boundary_example\<lparr>age := 66, resting_bp := 141, cholesterol := 241, max_hr := 99\<rparr>"]
  by (simp add: boundary_example_def spec_example_def risk_factors_eq)

text \<open>
  C7. When \<^verbatim>\<open>scaler.transform\<close>, \<^verbatim>\<open>model.predict\<close> or
  \<^verbatim>\<open>model.predict_proba\<close> raises on a submission, the handler returns: the exception is
  caught, the failure message with that exception is the last thing shown, and the state of the
  application is the one the submission found. Each library function was called at most once
  and none after the failure, so nothing is retried.
\<close>

theorem inference_failure_reported:
  assumes "build_feature_vector (widgets st) (expected_columns (loaded st)) = Inr input_df"
  shows "(scaler_transform (loaded st) input_df = Inl e \<longrightarrow>
            submit st = (st, [Call Scaler_transform, Prediction_failed e])) \<and>
         (scaler_transform (loaded st) input_df = Inr scaled \<and>
          first_row (model_predict (loaded st) scaled) = Inl e \<longrightarrow>
            submit st = (st, [Call Scaler_transform, Call Model_predict, Prediction_failed e])) \<and>
         (scaler_transform (loaded st) input_df = Inr scaled \<and>
          first_row (model_predict (loaded st) scaled) = Inr prediction \<and>
          first_row (model_predict_proba (loaded st) scaled) = Inl e \<longrightarrow>
            submit st = (st, [Call Scaler_transform, Call Model_predict,
                              Call Model_predict_proba, Prediction_failed e]))"
  by (simp add: submit_def on_analyze_eq [OF assms] infer_def)

theorem inference_failure_reported_witness:
  "snd (submit \<lparr>loaded = example_artifacts (Inl (LibraryError ''feature names mismatch''))
                  (Inr [1]) (Inr [[0.25, 0.75]]), widgets = spec_example\<rparr>)
     = [Call Scaler_transform, Prediction_failed (LibraryError ''feature names mismatch'')] \<and>
   snd (submit \<lparr>loaded = example_artifacts (Inr ()) (Inl (LibraryError ''not fitted''))
                  (Inr [[0.25, 0.75]]), widgets = spec_example\<rparr>)
     = [Call Scaler_transform, Call Model_predict, Prediction_failed (LibraryError ''not fitted'')] \<and>
   snd (submit \<lparr>loaded = example_artifacts (Inr ()) (Inr [1]) (Inr []),
                  widgets = spec_example\<rparr>)
     = [Call Scaler_transform, Call Model_predict, Call Model_predict_proba,
        Prediction_failed IndexError]"
proof -
  let ?st1 = "\<lparr>loaded = example_artifacts (Inl (LibraryError ''feature names mismatch''))
                  (Inr [1]) (Inr [[0.25, 0.75]]), widgets = spec_example\<rparr>"
  let ?st2 = "\<lparr>loaded = example_artifacts (Inr ()) (Inl (LibraryError ''not fitted''))
                  (Inr [[0.25, 0.75]]), widgets = spec_example\<rparr>"
  let ?st3 = "\<lparr>loaded = example_artifacts (Inr ()) (Inr [1]) (Inr []),
                  widgets = spec_example\<rparr>"
  let ?df = "[(''Age'', IntCell 40), (''Sex_M'', IntCell 1 :: real cell)]"
  have b1: "build_feature_vector (widgets ?st1) (expected_columns (loaded ?st1)) = Inr ?df"
    using example_vector_of_artifacts by simp
  have b2: "build_feature_vector (widgets ?st2) (expected_columns (loaded ?st2)) = Inr ?df"
    using example_vector_of_artifacts by simp
  have b3: "build_feature_vector (widgets ?st3) (expected_columns (loaded ?st3)) = Inr ?df"
    using example_vector_of_artifacts by simp
  have c1: "snd (submit ?st1)
     = [Call Scaler_transform, Prediction_failed (LibraryError ''feature names mismatch'')]"
    using inference_failure_reported
      [OF b1, of "LibraryError ''feature names mismatch''" "()" 1]
    by (simp add: example_artifacts_def)
  have c2: "snd (submit ?st2)
     = [Call Scaler_transform, Call Model_predict, Prediction_failed (LibraryError ''not fitted'')]"
    using inference_failure_reported [OF b2, of "LibraryError ''not fitted''" "()" 1]
    by (simp add: example_artifacts_def first_row_def)
  have c3: "snd (submit ?st3)
     = [Call Scaler_transform, Call Model_predict, Call Model_predict_proba,
        Prediction_failed IndexError]"
    using inference_failure_reported [OF b3, of IndexError "()" 1]
    by (simp add: example_artifacts_def first_row_def np_index_def)
  show ?thesis
    using c1 c2 c3 by simp
qed

text \<open>
  C10. After a successful inference with at least two class probabilities, the HIGH block is
  rendered if and only if the predicted label is 1, with the class-1 probability times 100; for
  every other label, 0 or not, the LOW block is rendered, with the class-0 probability
  times 100.
\<close>

theorem high_block_iff_label_one:
  assumes "scaler_transform a input_df = Inr scaled"
      and "first_row (model_predict a scaled) = Inr prediction"
      and "first_row (model_predict_proba a scaled) = Inr prediction_proba"
      and "2 \<le> length prediction_proba"
  shows "(Risk_high p \<in> set (fst (infer a obs input_df))
            \<longleftrightarrow> prediction = 1 \<and> p = prediction_proba ! 1 * 100) \<and>
         (Risk_low p \<in> set (fst (infer a obs input_df))
            \<longleftrightarrow> prediction \<noteq> 1 \<and> p = prediction_proba ! 0 * 100) \<and>
         snd (infer a obs input_df) = None"
  using assms
  by (auto simp: infer_def risk_pct_def np_index_def render_risk_def render_risk_factors_no_block)

theorem high_block_iff_label_one_witness:
  "on_analyze (example_artifacts (Inr ()) (Inr [1]) (Inr [[0.25, 0.75]])) spec_example
     = [Call Scaler_transform, Call Model_predict, Call Model_predict_proba,
        Markdown_rule, Results_header, Risk_high 75, Recommended_actions,
        Risk_factors_header, No_red_flags] \<and>
   on_analyze (example_artifacts (Inr ()) (Inr [2]) (Inr [[0.25, 0.75]])) spec_example
     = [Call Scaler_transform, Call Model_predict, Call Model_predict_proba,
        Markdown_rule, Results_header, Risk_low 25, Healthy_info,
        Risk_factors_header, No_red_flags]"
proof -
  let ?a1 = "example_artifacts (Inr ()) (Inr [1]) (Inr [[0.25, 0.75]])"
  let ?a2 = "example_artifacts (Inr ()) (Inr [2]) (Inr [[0.25, 0.75]])"
  let ?df = "[(''Age'', IntCell 40), (''Sex_M'', IntCell 1 :: real cell)]"
  have t1: "scaler_transform ?a1 ?df = Inr ()" and t2: "scaler_transform ?a2 ?df = Inr ()"
    by (simp_all add: example_artifacts_def)
  have p1: "first_row (model_predict ?a1 ()) = Inr 1"
    and p2: "first_row (model_predict ?a2 ()) = Inr 2"
    by (simp_all add: example_artifacts_def first_row_def np_index_def)
  have q1: "first_row (model_predict_proba ?a1 ()) = Inr [0.25, 0.75]"
    and q2: "first_row (model_predict_proba ?a2 ()) = Inr [0.25, 0.75]"
    by (simp_all add: example_artifacts_def first_row_def np_index_def)
  have l: "2 \<le> length [0.25, 0.75 :: real]"
    by simp
  have r: "risk_factors spec_example = []"
    by (simp add: risk_factors_eq spec_example_def)
  have e1: "on_analyze ?a1 spec_example
     = [Call Scaler_transform, Call Model_predict, Call Model_predict_proba,
        Markdown_rule, Results_header, Risk_high 75, Recommended_actions,
        Risk_factors_header, No_red_flags]"
    using high_block_iff_label_one [OF t1 p1 q1 l, of 75 spec_example] t1 p1 q1 r
    by (simp add: on_analyze_eq [OF example_vector_of_artifacts] infer_def risk_pct_def
        np_index_def render_risk_def render_risk_factors_def)
  have e2: "on_analyze ?a2 spec_example
     = [Call Scaler_transform, Call Model_predict, Call Model_predict_proba,
        Markdown_rule, Results_header, Risk_low 25, Healthy_info,
        Risk_factors_header, No_red_flags]"
    using high_block_iff_label_one [OF t2 p2 q2 l, of 25 spec_example] t2 p2 q2 r
    by (simp add: on_analyze_eq [OF example_vector_of_artifacts] infer_def risk_pct_def
        np_index_def render_risk_def render_risk_factors_def)
  show ?thesis
    using e1 e2 by simp
qed

end
